theory Spec2Isabelle
  imports Complex_Main "HOL-Library.Sublist" "HOL-Library.Multiset" "HOL-Library.AList"
begin

section \<open>JavaScript string operations used by the sources\<close>

text \<open>
  File names, mime types, keys and path templates are JavaScript strings. They are modelled
  as \<^typ>\<open>string\<close>, one \<^typ>\<open>char\<close> per code unit, for the ASCII range: there
  \<open>String.prototype.toLowerCase\<close> maps \<open>A\<close>..\<open>Z\<close> to \<open>a\<close>..\<open>z\<close> and fixes every other
  character, and the white space removed by \<open>trim\<close> is tab, line feed, vertical tab, form
  feed, carriage return and space.
\<close>

text \<open>\<open>s.split(c)\<close> for a separator \<open>c\<close> of one character: never the empty array.\<close>

fun split :: "char \<Rightarrow> string \<Rightarrow> string list" where
  "split c [] = [[]]"
| "split c (x # xs) =
     (if x = c then [] # split c xs
      else (case split c xs of [] \<Rightarrow> [[x]] | s # ss \<Rightarrow> (x # s) # ss))"

definition toLowerCaseChar :: "char \<Rightarrow> char" where
  "toLowerCaseChar c =
     (case map_of (zip ''ABCDEFGHIJKLMNOPQRSTUVWXYZ'' ''abcdefghijklmnopqrstuvwxyz'') c of
        Some l \<Rightarrow> l
      | None \<Rightarrow> c)"

definition toLowerCase :: "string \<Rightarrow> string" where
  "toLowerCase s = map toLowerCaseChar s"

text \<open>\<open>s.startsWith(p)\<close>.\<close>

definition startsWith :: "string \<Rightarrow> string \<Rightarrow> bool" where
  "startsWith s p = prefix p s"

text \<open>\<open>s.substring(a, b)\<close> for \<open>a \<le> b\<close>: both ends are clamped to the length of \<open>s\<close>.\<close>

definition substring :: "nat \<Rightarrow> nat \<Rightarrow> string \<Rightarrow> string" where
  "substring a b s = take (b - a) (drop a s)"

text \<open>\<open>s.padStart(n, '0')\<close>.\<close>

definition padStart :: "nat \<Rightarrow> char \<Rightarrow> string \<Rightarrow> string" where
  "padStart n c s = replicate (n - length s) c @ s"

text \<open>
  \<open>s.replace(pat, rep)\<close> with a string pattern replaces the first occurrence of \<open>pat\<close>
  only. (The replacement texts of the sources are decimal numbers, so no \<open>$\<close> pattern of
  the replacement syntax occurs in them.)
\<close>

fun replace :: "string \<Rightarrow> string \<Rightarrow> string \<Rightarrow> string" where
  "replace pat rep [] = (if pat = [] then rep else [])"
| "replace pat rep (x # xs) =
     (if prefix pat (x # xs) then rep @ drop (length pat) (x # xs)
      else x # replace pat rep xs)"

text \<open>
  \<open>s.replace(/c+/g, 'c')\<close> for a character \<open>c\<close>: every maximal run of \<open>c\<close> is replaced by
  one \<open>c\<close>.
\<close>

function collapse :: "char \<Rightarrow> string \<Rightarrow> string" where
  "collapse c [] = []"
| "collapse c (x # xs) =
     (if x = c then c # collapse c (dropWhile (\<lambda>y. y = c) xs) else x # collapse c xs)"
  by pat_completeness auto
termination
  by (relation "measure (\<lambda>(c, s). length s)") (auto simp: length_dropWhile_le less_Suc_eq_le)

text \<open>Decimal rendering of numbers: \<open>String(n)\<close>, \<open>n.toString()\<close>.\<close>

definition digitChar :: "nat \<Rightarrow> char" where
  "digitChar d = ''0123456789'' ! d"

function showNat :: "nat \<Rightarrow> string" where
  "showNat n = (if n < 10 then [digitChar n] else showNat (n div 10) @ [digitChar (n mod 10)])"
  by pat_completeness auto
termination
  by (relation "measure id") auto

declare showNat.simps [simp del]

definition showInt :: "int \<Rightarrow> string" where
  "showInt i = (if i < 0 then CHR ''-'' # showNat (nat (- i)) else showNat (nat i))"

section \<open>File Manager\<close>

text \<open>
  \<open>this.config\<close> of a \<open>FileManager\<close>. \<open>maxFileSize\<close> is a JavaScript number; the sizes
  compared with it are quotients of an integer by \<open>2\<^sup>2\<^sup>0\<close>, which a double holds exactly,
  so the comparison is the one of the rationals.
\<close>

record config =
  uploadPath :: string
  nameRule :: string
  allowedTypes :: "string list"
  maxFileSize :: rat

text \<open>A browser \<open>File\<close>: only the attributes the File Manager reads.\<close>

record uploadableFile =
  name :: string
  type :: string
  size :: nat

text \<open>
  The messages of the File Manager are Chinese texts; each is a constructor here.
  \<open>SizeLimitMessage m\<close> is the text that quotes the limit \<open>m\<close> followed by \<open>MB\<close>,
  \<open>UnsupportedFormatMessage\<close> the fixed text of an unsupported format, and
  \<open>ErrorMessage s\<close> the \<open>message\<close> of an exception caught by \<open>processFile\<close>.
\<close>

datatype message = SizeLimitMessage rat | UnsupportedFormatMessage | ErrorMessage string

text \<open>The result of \<open>validateFile\<close>: \<open>true\<close> or a message.\<close>

datatype validation = ValidTrue | Invalid message

definition validateFile :: "config \<Rightarrow> uploadableFile \<Rightarrow> validation" where
  "validateFile cfg f =
     (let fileSizeMB = of_nat (size f) / (1024 * 1024) in
      if fileSizeMB > maxFileSize cfg then Invalid (SizeLimitMessage (maxFileSize cfg))
      else if type f \<notin> set (allowedTypes cfg) then Invalid UnsupportedFormatMessage
      else ValidTrue)"

text \<open>
  The result \<open>{file, error}\<close> of \<open>processFile\<close> (fields \<open>resultFile\<close> and
  \<open>resultError\<close>, \<open>None\<close> for \<open>null\<close>). The compression collaborator is a
  parameter: \<open>compress f\<close> is \<open>Inr\<close> of the compressed file, or \<open>Inl\<close> of the message of
  the exception it throws. The second component of the result lists the files the
  collaborator was invoked on.
\<close>

record processed =
  resultFile :: "uploadableFile option"
  resultError :: "message option"

definition processFile ::
  "config \<Rightarrow> (uploadableFile \<Rightarrow> string + uploadableFile) \<Rightarrow> uploadableFile
     \<Rightarrow> processed \<times> uploadableFile list" where
  "processFile cfg compress f =
     (case validateFile cfg f of
        Invalid validationResult \<Rightarrow> (\<lparr>resultFile = None, resultError = Some validationResult\<rparr>, [])
      | ValidTrue \<Rightarrow>
          if startsWith (type f) ''image/'' then
            (case compress f of
               Inr compressedFile \<Rightarrow> (\<lparr>resultFile = Some compressedFile, resultError = None\<rparr>, [f])
             | Inl msg \<Rightarrow> (\<lparr>resultFile = None, resultError = Some (ErrorMessage msg)\<rparr>, [f]))
          else (\<lparr>resultFile = Some f, resultError = None\<rparr>, []))"

text \<open>
  What \<open>generatePath\<close> and \<open>_generateFilename\<close> read from the environment at a call:
  \<open>getFullYear\<close>, \<open>getMonth\<close> (0 to 11) and \<open>getDate\<close> of \<open>new Date()\<close>, the value of
  \<open>Date.now()\<close>, and \<open>mathRandom36\<close>, the text \<open>Math.random().toString(36)\<close>: the random
  number of \<open>[0, 1)\<close> written in base 36, which is \<open>0\<close> for the number 0 and otherwise
  \<open>0.\<close> followed by digits out of \<open>0\<close>..\<open>9\<close>, \<open>a\<close>..\<open>z\<close> (\<open>0.i\<close> for the number 0.5, since
  \<open>i\<close> is the digit 18).
\<close>

record environment =
  getFullYear :: int
  getMonth :: nat
  getDate :: nat
  dateNow :: nat
  mathRandom36 :: string

text \<open>The character class \<open>[a-zA-Z0-9-_.]\<close>.\<close>

definition allowedChar :: "char \<Rightarrow> bool" where
  "allowedChar c =
     (c \<in> set ''abcdefghijklmnopqrstuvwxyzABCDEFGHIJKLMNOPQRSTUVWXYZ0123456789-_.'')"

text \<open>\<open>.replace(/[^a-zA-Z0-9-_.]/g, '-')\<close>\<close>

definition replaceDisallowed :: "string \<Rightarrow> string" where
  "replaceDisallowed s = map (\<lambda>c. if allowedChar c then c else CHR ''-'') s"

text \<open>\<open>.replace(/^-+|-+$/g, '')\<close>: the leading and the trailing run of \<open>-\<close> are removed.\<close>

definition trimDashes :: "string \<Rightarrow> string" where
  "trimDashes s =
     rev (dropWhile (\<lambda>c. c = CHR ''-'') (rev (dropWhile (\<lambda>c. c = CHR ''-'') s)))"

text \<open>The three replacements that \<open>_generateFilename\<close> chains under the rule \<open>original\<close>.\<close>

definition sanitize :: "string \<Rightarrow> string" where
  "sanitize s = trimDashes (collapse (CHR ''-'') (replaceDisallowed s))"

text \<open>
  \<open>_generateFilename\<close>. \<open>split('.').pop()\<close> is the last and \<open>split('.')[0]\<close> the first
  element of the array, which is never empty. The \<open>switch\<close> has the cases \<open>timestamp\<close> and
  \<open>random\<close>; \<open>original\<close> shares the \<open>default\<close> branch.
\<close>

definition generateFilename :: "config \<Rightarrow> environment \<Rightarrow> string \<Rightarrow> string" where
  "generateFilename cfg env originalFilename =
     (let ext = toLowerCase (last (split (CHR ''.'') originalFilename));
          basename =
            (if nameRule cfg = ''timestamp'' then showNat (dateNow env)
             else if nameRule cfg = ''random'' then substring 2 10 (mathRandom36 env)
             else sanitize (hd (split (CHR ''.'') originalFilename)))
      in basename @ ''.'' @ ext)"

text \<open>\<open>_normalizePath\<close>: \<open>.replace(/\/+/g, '/').replace(/^\//, '').replace(/\/$/, '')\<close>\<close>

definition stripLeadingSlash :: "string \<Rightarrow> string" where
  "stripLeadingSlash p = (case p of [] \<Rightarrow> [] | c # cs \<Rightarrow> if c = CHR ''/'' then cs else p)"

definition stripTrailingSlash :: "string \<Rightarrow> string" where
  "stripTrailingSlash p = (if p \<noteq> [] \<and> last p = CHR ''/'' then butlast p else p)"

definition normalizePath :: "string \<Rightarrow> string" where
  "normalizePath p = stripTrailingSlash (stripLeadingSlash (collapse (CHR ''/'') p))"

definition generatePath :: "config \<Rightarrow> environment \<Rightarrow> string \<Rightarrow> string" where
  "generatePath cfg env filename =
     (let path =
            replace ''{day}'' (padStart 2 (CHR ''0'') (showNat (getDate env)))
              (replace ''{month}'' (padStart 2 (CHR ''0'') (showNat (getMonth env + 1)))
                (replace ''{year}'' (showInt (getFullYear env)) (uploadPath cfg)));
          processedFilename = generateFilename cfg env filename
      in normalizePath (path @ ''/'' @ processedFilename))"

section \<open>Telegram storage adapter\<close>

text \<open>
  \<open>_getSendFunction\<close> returns an object \<open>{url, type}\<close>: the method of the Bot API and the
  name of the form field that carries the file.
\<close>

record sendFunction =
  url :: string
  type :: string

definition getSendFunction :: "string \<Rightarrow> string \<Rightarrow> sendFunction" where
  "getSendFunction fileType fileName =
     (let ext = toLowerCase (last (split (CHR ''.'') fileName)) in
      if ext = ''gif'' \<or> ext = ''webp'' \<or> fileType = ''image/gif''
        then \<lparr>url = ''sendAnimation'', type = ''animation''\<rparr>
      else if fileType = ''image/svg+xml'' \<or> fileType = ''image/x-icon''
        then \<lparr>url = ''sendDocument'', type = ''document''\<rparr>
      else if startsWith fileType ''image/'' then \<lparr>url = ''sendPhoto'', type = ''photo''\<rparr>
      else if startsWith fileType ''video/'' then \<lparr>url = ''sendVideo'', type = ''video''\<rparr>
      else if startsWith fileType ''audio/'' then \<lparr>url = ''sendAudio'', type = ''audio''\<rparr>
      else \<lparr>url = ''sendDocument'', type = ''document''\<rparr>)"

text \<open>
  An entry of the local index, as \<open>upload\<close> pushes it: \<open>{key, url, fileId, filePath,
  lastModified, size}\<close>. \<open>listObjects\<close> maps an entry to \<open>{key, url, lastModified, size}\<close>, so
  the entry is a record extending the listed object. \<open>lastModified\<close> is written by
  \<open>new Date().toISOString()\<close> and read back by \<open>new Date(item.lastModified)\<close>; it is
  modelled by the time value of that date, in milliseconds.
\<close>

record listedObject =
  key :: string
  url :: string
  lastModified :: int
  size :: nat

record indexRecord = listedObject +
  fileId :: string
  filePath :: string

text \<open>
  What \<open>localStorage\<close> holds under the key \<open>telegram_upload_index\<close>:
  \<^item> \<open>NoItem\<close>: nothing, \<open>getItem\<close> returns \<open>null\<close>;
  \<^item> \<open>Unreadable\<close>: a read that \<open>_getLocalIndex\<close> answers with the empty index, because
    the text is empty, or \<open>JSON.parse\<close> rejects it, or \<open>getItem\<close> itself throws;
  \<^item> \<open>StoredIndex idx\<close>: the JSON text of the array of the entries \<open>idx\<close>, which is what
    \<open>_saveLocalIndex\<close> writes;
  \<^item> \<open>NotAnArray\<close>: the JSON text of a value that is no array (\<open>null\<close>, a boolean, a
    number, a string, an object);
  \<^item> \<open>ArrayWithNull\<close>: the JSON text of an array that has \<open>null\<close> among its elements.

  The last two are texts that \<open>JSON.parse\<close> accepts, so \<open>_getLocalIndex\<close> returns their
  value as it is. An array with elements of yet another shape (neither an entry nor
  \<open>null\<close>) is not modelled.
\<close>

datatype storedItem =
  NoItem | Unreadable | StoredIndex "indexRecord list" | NotAnArray | ArrayWithNull

datatype consoleEntry = ConsoleWarn | ConsoleError

text \<open>
  The part of the browser the adapter acts on: the stored item; \<open>room\<close>, which tells
  whether the quota of the origin has room for the text of a given index; the console;
  and the requests sent with \<open>fetch\<close> (their URLs), in order.
\<close>

record browser =
  localStorage :: storedItem
  room :: "indexRecord list \<Rightarrow> bool"
  console :: "consoleEntry list"
  requests :: "string list"

text \<open>
  What \<open>_getLocalIndex\<close> returns: an array of entries, or a value that is not one
  (\<open>JSON.parse\<close> succeeded on a text of another shape). On such a value the callers
  throw a \<open>TypeError\<close>: \<open>index.filter\<close> and \<open>index.sort\<close> are not functions of a value
  that is no array, and the callbacks \<open>item => item.key ...\<close> and
  \<open>item => ({key: item.key, ...})\<close> read a property of \<open>null\<close> on an array that has
  \<open>null\<close> among its elements.
\<close>

datatype parsed = Entries "indexRecord list" | NoEntries

definition getLocalIndex :: "browser \<Rightarrow> parsed" where
  "getLocalIndex b =
     (case localStorage b of
        NoItem \<Rightarrow> Entries []
      | Unreadable \<Rightarrow> Entries []
      | StoredIndex index \<Rightarrow> Entries index
      | NotAnArray \<Rightarrow> NoEntries
      | ArrayWithNull \<Rightarrow> NoEntries)"

text \<open>
  \<open>localStorage.setItem\<close> throws when the quota of the origin cannot take the text. A
  browser checks the quota only when the item grows, and the text of an index from
  which entries were removed is no longer than the text of that index: such a write is
  stored whatever room is left. Every other write is stored when there is room for it.
\<close>

definition setItemStores :: "browser \<Rightarrow> indexRecord list \<Rightarrow> bool" where
  "setItemStores b index =
     (case localStorage b of
        StoredIndex old \<Rightarrow> subseq index old \<or> room b index
      | _ \<Rightarrow> room b index)"

text \<open>
  \<open>_saveLocalIndex\<close>: the \<open>try\<close> stores the text of the index; the \<open>catch\<close> of a
  \<open>setItem\<close> that throws logs the error and leaves the stored item as it was.
\<close>

definition saveLocalIndex :: "indexRecord list \<Rightarrow> browser \<Rightarrow> browser" where
  "saveLocalIndex index b =
     (if setItemStores b index then b\<lparr>localStorage := StoredIndex index\<rparr>
      else b\<lparr>console := console b @ [ConsoleError]\<rparr>)"

text \<open>
  The settlement of the promise an \<open>async\<close> method returns: an exception thrown in the
  body rejects it.
\<close>

datatype 'a promise = Resolved 'a | Rejected string

text \<open>\<open>delete(key)\<close>, named \<open>deleteKey\<close>.\<close>

definition deleteKey :: "string \<Rightarrow> browser \<Rightarrow> unit promise \<times> browser" where
  "deleteKey k b =
     (case getLocalIndex b of
        NoEntries \<Rightarrow> (Rejected ''TypeError'', b)
      | Entries index \<Rightarrow>
          let newIndex = filter (\<lambda>item. key item \<noteq> k) index;
              b1 = saveLocalIndex newIndex b;
              b2 = b1\<lparr>console := console b1 @ [ConsoleWarn]\<rparr>
          in (Resolved (), b2))"

text \<open>
  \<open>listObjects(prefix = '')\<close>: the argument is \<open>None\<close> when the caller passes none. The
  comparator \<open>(a, b) => new Date(b.lastModified) - new Date(a.lastModified)\<close> orders by
  falling time, and \<open>Array.prototype.sort\<close> is stable: the sort is the stable sort on the
  negated time.
\<close>

definition listObjects :: "string option \<Rightarrow> browser \<Rightarrow> listedObject list promise \<times> browser" where
  "listObjects prefixArg b =
     (let prefix = (case prefixArg of None \<Rightarrow> [] | Some p \<Rightarrow> p) in
      case getLocalIndex b of
        NoEntries \<Rightarrow> (Rejected ''TypeError'', b)
      | Entries index \<Rightarrow>
          let filtered =
                (if prefix \<noteq> [] then filter (\<lambda>item. startsWith (key item) prefix) index
                 else index)
          in (Resolved
                (map (\<lambda>item. \<lparr>key = key item, url = url item,
                                lastModified = lastModified item, size = size item\<rparr>)
                   (sort_key (\<lambda>item. - lastModified item) filtered)),
              b))"

text \<open>
  A method that does call the remote service, for contrast with \<open>delete\<close>:
  \<open>_getFilePath\<close> sends one \<open>GET\<close> request to \<open>getFile\<close>. The adapter keeps the bot
  token and the optional proxy domain; the service is a parameter that gives, for the
  URL requested, either no usable answer (\<open>fetch\<close> rejects, the body is not JSON, or it
  has no \<open>result\<close>: an exception, which the method catches and logs) or the fields \<open>ok\<close>
  and \<open>result.file_path\<close> of the answer.
\<close>

record adapter =
  botToken :: string
  chatId :: string
  proxyUrl :: string

definition baseURL :: "adapter \<Rightarrow> string" where
  "baseURL a =
     (if proxyUrl a \<noteq> [] then ''https://'' @ proxyUrl a else ''https://api.telegram.org'')
       @ ''/bot'' @ botToken a"

datatype answer = NoAnswer | Answer bool "string option"

definition getFilePath ::
  "adapter \<Rightarrow> (string \<Rightarrow> answer) \<Rightarrow> string \<Rightarrow> browser \<Rightarrow> string option \<times> browser" where
  "getFilePath a service fileIdentifier b =
     (let address = baseURL a @ ''/getFile?file_id='' @ fileIdentifier;
          b1 = b\<lparr>requests := requests b @ [address]\<rparr>
      in case service address of
           NoAnswer \<Rightarrow> (None, b1\<lparr>console := console b1 @ [ConsoleError]\<rparr>)
         | Answer ok path \<Rightarrow> (if ok then path else None, b1))"

section \<open>Storage service catalogue\<close>

text \<open>
  Object and array literals of the sources are values of \<open>json\<close>: a string, a boolean, an
  array, or an object as the list of its properties in the order of the literal.
\<close>

datatype json = JString string | JBool bool | JArray "json list" | JObject "(string \<times> json) list"

text \<open>
  \<open>STORAGE_SERVICES\<close>. The texts shown to the user (\<open>label\<close>, \<open>description\<close>,
  \<open>placeholder\<close>) are read by none of the functions here and are left out; every other
  property of the literal is kept.
\<close>

definition STORAGE_SERVICES :: json where
  "STORAGE_SERVICES = JObject
     [(''s3'', JObject
         [(''type'', JString ''s3''), (''icon'', JString ''Cloudy''),
          (''fields'', JArray
             [JObject [(''key'', JString ''endpoint''), (''icon'', JString ''Link'')],
              JObject [(''key'', JString ''region''), (''icon'', JString ''Location''),
                       (''required'', JBool True)],
              JObject [(''key'', JString ''bucket''), (''icon'', JString ''Box''),
                       (''required'', JBool True)],
              JObject [(''key'', JString ''accessKey''), (''icon'', JString ''Key''),
                       (''required'', JBool True)],
              JObject [(''key'', JString ''secretKey''), (''icon'', JString ''Lock''),
                       (''type'', JString ''password''), (''required'', JBool True)]])]),
      (''oss'', JObject
         [(''type'', JString ''oss''), (''icon'', JString ''Cloudy''),
          (''fields'', JArray
             [JObject [(''key'', JString ''endpoint''), (''icon'', JString ''Location''),
                       (''required'', JBool True)],
              JObject [(''key'', JString ''bucket''), (''icon'', JString ''Box''),
                       (''required'', JBool True)],
              JObject [(''key'', JString ''accessKey''), (''icon'', JString ''Key''),
                       (''required'', JBool True)],
              JObject [(''key'', JString ''secretKey''), (''icon'', JString ''Lock''),
                       (''type'', JString ''password''), (''required'', JBool True)]])]),
      (''cos'', JObject
         [(''type'', JString ''cos''), (''icon'', JString ''Cloudy''),
          (''fields'', JArray
             [JObject [(''key'', JString ''region''), (''icon'', JString ''Location''),
                       (''required'', JBool True)],
              JObject [(''key'', JString ''bucket''), (''icon'', JString ''Box''),
                       (''required'', JBool True)],
              JObject [(''key'', JString ''secretId''), (''icon'', JString ''Key''),
                       (''required'', JBool True)],
              JObject [(''key'', JString ''secretKey''), (''icon'', JString ''Lock''),
                       (''type'', JString ''password''), (''required'', JBool True)]])]),
      (''telegram'', JObject
         [(''type'', JString ''telegram''), (''icon'', JString ''ChatDotRound''),
          (''fields'', JArray
             [JObject [(''key'', JString ''botToken''), (''icon'', JString ''Key''),
                       (''required'', JBool True)],
              JObject [(''key'', JString ''chatId''), (''icon'', JString ''ChatDotSquare''),
                       (''required'', JBool True)],
              JObject [(''key'', JString ''proxyUrl''), (''icon'', JString ''Link'')],
              JObject [(''key'', JString ''customDomain''), (''icon'', JString ''View'')]])])]"

text \<open>
  Reading \<open>obj[k]\<close> on an object written as a literal: the value of its own property \<open>k\<close>;
  failing that, what it inherits from \<open>Object.prototype\<close>, whose members are functions
  and, for \<open>__proto__\<close>, the prototype object itself; failing that, \<open>undefined\<close>.
\<close>

datatype property = Own json | Inherited | Undefined

definition objectPrototypeNames :: "string list" where
  "objectPrototypeNames =
     [''constructor'', ''hasOwnProperty'', ''isPrototypeOf'', ''propertyIsEnumerable'',
      ''toLocaleString'', ''toString'', ''valueOf'', ''__proto__'',
      ''__defineGetter__'', ''__defineSetter__'', ''__lookupGetter__'', ''__lookupSetter__'']"

definition getProperty :: "(string \<times> json) list \<Rightarrow> string \<Rightarrow> property" where
  "getProperty properties k =
     (case map_of properties k of
        Some v \<Rightarrow> Own v
      | None \<Rightarrow> if k \<in> set objectPrototypeNames then Inherited else Undefined)"

text \<open>Truthiness: of the values of a literal, and of what a property read gives.\<close>

fun truthy :: "json \<Rightarrow> bool" where
  "truthy (JString s) = (s \<noteq> [])"
| "truthy (JBool b) = b"
| "truthy (JArray xs) = True"
| "truthy (JObject ps) = True"

fun truthyProperty :: "property \<Rightarrow> bool" where
  "truthyProperty (Own v) = truthy v"
| "truthyProperty Inherited = True"
| "truthyProperty Undefined = False"

datatype jsError = TypeError

text \<open>\<open>STORAGE_SERVICES[type]\<close>\<close>

definition storageService :: "string \<Rightarrow> property" where
  "storageService t = (case STORAGE_SERVICES of JObject services \<Rightarrow> getProperty services t
                                              | _ \<Rightarrow> Undefined)"

text \<open>\<open>field.required\<close> as a condition, and \<open>field.key\<close>, for a field of the catalogue.\<close>

fun fieldRequired :: "json \<Rightarrow> bool" where
  "fieldRequired (JObject ps) = truthyProperty (getProperty ps ''required'')"
| "fieldRequired _ = False"

fun fieldKey :: "json \<Rightarrow> string" where
  "fieldKey (JObject ps) = (case getProperty ps ''key'' of Own (JString k) \<Rightarrow> k | _ \<Rightarrow> ''undefined'')"
| "fieldKey _ = ''undefined''"

text \<open>
  \<open>getRequiredFields\<close>. A member of \<open>Object.prototype\<close> is truthy and has no property
  \<open>fields\<close>: \<open>service.fields.filter\<close> then reads \<open>filter\<close> of \<open>undefined\<close>, which throws a
  \<open>TypeError\<close>.
\<close>

definition getRequiredFields :: "string \<Rightarrow> jsError + string list" where
  "getRequiredFields t =
     (let service = storageService t in
      if \<not> truthyProperty service then Inr []
      else (case service of
              Own (JObject ps) \<Rightarrow>
                (case getProperty ps ''fields'' of
                   Own (JArray fieldList) \<Rightarrow> Inr (map fieldKey (filter fieldRequired fieldList))
                 | _ \<Rightarrow> Inl TypeError)
            | _ \<Rightarrow> Inl TypeError))"

text \<open>\<open>s.trim()\<close>\<close>

definition isWhiteSpace :: "char \<Rightarrow> bool" where
  "isWhiteSpace c = (c \<in> set [CHR 0x09, CHR 0x0A, CHR 0x0B, CHR 0x0C, CHR 0x0D, CHR '' ''])"

definition trim :: "string \<Rightarrow> string" where
  "trim s = rev (dropWhile isWhiteSpace (rev (dropWhile isWhiteSpace s)))"

text \<open>
  The messages of \<open>validateStorageConfig\<close>, Chinese texts in the source: the type is not
  valid; the configuration is empty; fill in all required fields or clear them all;
  validation passed.
\<close>

datatype configMessage = InvalidStorageType | ConfigEmpty | FillAllOrClearAll | ValidationPassed

record validationResult =
  isValid :: bool
  message :: configMessage

text \<open>
  A configuration is an object whose properties hold the texts of a form, \<open>None\<close> for a
  property that is absent; the argument is \<open>None\<close> for a missing (falsy) configuration.
  \<open>fieldEmpty config field\<close> is the condition \<open>!config[field]?.trim()\<close>.
\<close>

definition fieldEmpty :: "(string \<Rightarrow> string option) \<Rightarrow> string \<Rightarrow> bool" where
  "fieldEmpty config field = (case config field of None \<Rightarrow> True | Some v \<Rightarrow> trim v = [])"

definition validateStorageConfig ::
  "string \<Rightarrow> (string \<Rightarrow> string option) option \<Rightarrow> jsError + validationResult" where
  "validateStorageConfig t config =
     (if \<not> truthyProperty (storageService t)
        then Inr \<lparr>isValid = False, message = InvalidStorageType\<rparr>
      else
        (case getRequiredFields t of
           Inl e \<Rightarrow> Inl e
         | Inr requiredFields \<Rightarrow>
             (case config of
                None \<Rightarrow> Inr \<lparr>isValid = True, message = ConfigEmpty\<rparr>
              | Some c \<Rightarrow>
                  let allFieldsEmpty = list_all (\<lambda>field. fieldEmpty c field) requiredFields in
                  if allFieldsEmpty then Inr \<lparr>isValid = True, message = ConfigEmpty\<rparr>
                  else
                    let missingFields = filter (\<lambda>field. fieldEmpty c field) requiredFields in
                    if length missingFields > 0
                      then Inr \<lparr>isValid = False, message = FillAllOrClearAll\<rparr>
                    else Inr \<lparr>isValid = True, message = ValidationPassed\<rparr>)))"

section \<open>Static accessors of the File Manager\<close>

text \<open>
  The accessors copy objects that the module shares with every caller, so objects are
  kept in a heap: a list of objects and arrays, the address of an object being its
  position. A property or an element holds a string, a boolean, or a reference.
\<close>

datatype heapValue = HString string | HBool bool | HRef nat

datatype heapObject = HObject "(string \<times> heapValue) list" | HArray "heapValue list"

type_synonym heap = "heapObject list"

text \<open>Evaluating a literal allocates one object for each object and array in it.\<close>

fun allocate :: "json \<Rightarrow> heap \<Rightarrow> heapValue \<times> heap"
  and allocateElements :: "json list \<Rightarrow> heap \<Rightarrow> heapValue list \<times> heap"
  and allocateProperties :: "(string \<times> json) list \<Rightarrow> heap \<Rightarrow> (string \<times> heapValue) list \<times> heap"
where
  "allocate (JString s) h = (HString s, h)"
| "allocate (JBool b) h = (HBool b, h)"
| "allocate (JArray xs) h =
     (case allocateElements xs h of (vs, h') \<Rightarrow> (HRef (length h'), h' @ [HArray vs]))"
| "allocate (JObject ps) h =
     (case allocateProperties ps h of (qs, h') \<Rightarrow> (HRef (length h'), h' @ [HObject qs]))"
| "allocateElements [] h = ([], h)"
| "allocateElements (x # xs) h =
     (case allocate x h of (v, h1) \<Rightarrow>
        (case allocateElements xs h1 of (vs, h2) \<Rightarrow> (v # vs, h2)))"
| "allocateProperties [] h = ([], h)"
| "allocateProperties ((k, x) # ps) h =
     (case allocate x h of (v, h1) \<Rightarrow>
        (case allocateProperties ps h1 of (qs, h2) \<Rightarrow> ((k, v) # qs, h2)))"

definition objectAt :: "heap \<Rightarrow> heapValue \<Rightarrow> heapObject option" where
  "objectAt h v = (case v of HRef a \<Rightarrow> if a < length h then Some (h ! a) else None
                          | _ \<Rightarrow> None)"

text \<open>
  The own enumerable properties that a spread \<open>{...x}\<close> copies: those of an object, the
  elements of an array under their indices, the characters of a string under theirs,
  none of a boolean. The values are copied as they are, references included.
\<close>

definition indexed :: "heapValue list \<Rightarrow> (string \<times> heapValue) list" where
  "indexed vs = zip (map showNat [0..<length vs]) vs"

definition spreadProperties :: "heap \<Rightarrow> heapValue \<Rightarrow> (string \<times> heapValue) list" where
  "spreadProperties h v =
     (case v of
        HString s \<Rightarrow> indexed (map (\<lambda>c. HString [c]) s)
      | HBool b \<Rightarrow> []
      | HRef a \<Rightarrow> (case objectAt h v of
                     Some (HObject ps) \<Rightarrow> ps
                   | Some (HArray vs) \<Rightarrow> indexed vs
                   | None \<Rightarrow> []))"

text \<open>
  The elements that an array spread \<open>[...x]\<close> copies, \<open>None\<close> where \<open>x\<close> is not iterable
  and the spread throws a \<open>TypeError\<close>.
\<close>

definition spreadElements :: "heap \<Rightarrow> heapValue \<Rightarrow> heapValue list option" where
  "spreadElements h v =
     (case v of
        HString s \<Rightarrow> Some (map (\<lambda>c. HString [c]) s)
      | HBool b \<Rightarrow> None
      | HRef a \<Rightarrow> (case objectAt h v of Some (HArray vs) \<Rightarrow> Some vs | _ \<Rightarrow> None))"

text \<open>
  Reading \<open>x.k\<close> for a name \<open>k\<close> that no prototype defines, \<open>None\<close> for \<open>undefined\<close>;
  the assignment \<open>x.k = v\<close> on an object; and \<open>x.push(v)\<close> on an array.
\<close>

definition readProperty :: "heap \<Rightarrow> heapValue \<Rightarrow> string \<Rightarrow> heapValue option" where
  "readProperty h x k = map_of (spreadProperties h x) k"

definition writeProperty :: "heap \<Rightarrow> heapValue \<Rightarrow> string \<Rightarrow> heapValue \<Rightarrow> heap" where
  "writeProperty h x k v =
     (case x of
        HRef a \<Rightarrow> (case objectAt h x of
                     Some (HObject ps) \<Rightarrow> h[a := HObject (AList.update k v ps)]
                   | _ \<Rightarrow> h)
      | _ \<Rightarrow> h)"

definition push :: "heap \<Rightarrow> heapValue \<Rightarrow> heapValue \<Rightarrow> heap" where
  "push h x v =
     (case x of
        HRef a \<Rightarrow> (case objectAt h x of
                     Some (HArray vs) \<Rightarrow> h[a := HArray (vs @ [v])]
                   | _ \<Rightarrow> h)
      | _ \<Rightarrow> h)"

text \<open>
  The accessors. \<open>STORAGE_SERVICES\<close> is the catalogue above; the modules that define
  \<open>DEFAULT_SETTINGS\<close>, \<open>NAME_RULES\<close> and \<open>OUTPUT_FORMATS\<close> are not part of the sources at
  hand, so each accessor takes the value bound to its constant as an argument. Each
  returns the new object and the heap that holds it.
\<close>

definition getNameRules :: "heapValue \<Rightarrow> heap \<Rightarrow> heapValue \<times> heap" where
  "getNameRules NAME_RULES h = (HRef (length h), h @ [HObject (spreadProperties h NAME_RULES)])"

definition getOutputFormats :: "heapValue \<Rightarrow> heap \<Rightarrow> heapValue \<times> heap" where
  "getOutputFormats OUTPUT_FORMATS h =
     (HRef (length h), h @ [HObject (spreadProperties h OUTPUT_FORMATS)])"

definition getSupportedStorages :: "heapValue \<Rightarrow> heap \<Rightarrow> heapValue \<times> heap" where
  "getSupportedStorages storageServices h =
     (HRef (length h), h @ [HObject (spreadProperties h storageServices)])"

definition getDefaultSettings :: "heapValue \<Rightarrow> heap \<Rightarrow> jsError + heapValue \<times> heap" where
  "getDefaultSettings DEFAULT_SETTINGS h =
     (case Option.bind (readProperty h DEFAULT_SETTINGS ''allowedTypes'') (spreadElements h) of
        None \<Rightarrow> Inl TypeError
      | Some types \<Rightarrow>
          let allowedTypesCopy = HRef (length h);
              h1 = h @ [HArray types];
              imageCopy = HRef (length h1);
              h2 = h1 @ [HObject (case readProperty h DEFAULT_SETTINGS ''image'' of
                                    None \<Rightarrow> []
                                  | Some imageSettings \<Rightarrow> spreadProperties h imageSettings)];
              settings =
                AList.update ''image'' imageCopy
                  (AList.update ''allowedTypes'' allowedTypesCopy
                     (spreadProperties h DEFAULT_SETTINGS))
          in Inr (HRef (length h2), h2 @ [HObject settings]))"

section \<open>Path segments\<close>

text \<open>
  Two notions used to state what \<open>_normalizePath\<close> returns: \<open>join sep xs\<close>, the texts of
  \<open>xs\<close> with \<open>sep\<close> between them (\<open>Array.prototype.join\<close>), and the segments of a path,
  the non-empty texts between its separators.
\<close>

fun join :: "string \<Rightarrow> string list \<Rightarrow> string" where
  "join sep [] = []"
| "join sep [s] = s"
| "join sep (s # t # ts) = s @ sep @ join sep (t # ts)"

definition segments :: "string \<Rightarrow> string list" where
  "segments p = filter (\<lambda>s. s \<noteq> []) (split (CHR ''/'') p)"

section \<open>Facts about the string operations\<close>

lemma split_not_Nil [simp]: "split c s \<noteq> []"
  by (induction s) (auto split: list.splits)

lemma split_no_separator: "c \<notin> set s \<Longrightarrow> split c s = [s]"
  by (induction s) auto

lemma split_append_separator: "split c (a @ c # b) = split c a @ split c b"
  by (induction a) (auto split: list.splits)

lemma hd_split: "hd (split c s) = takeWhile (\<lambda>x. x \<noteq> c) s"
  by (induction s) (auto split: list.splits)

lemma last_split_separator: "c \<notin> set b \<Longrightarrow> last (split c (a @ c # b)) = b"
  by (simp add: split_append_separator split_no_separator)

lemma in_split_no_separator: "s \<in> set (split c p) \<Longrightarrow> c \<notin> set s"
  by (induction p arbitrary: s) (auto split: list.splits if_splits)

lemma collapse_append: "c \<notin> set w \<Longrightarrow> collapse c (w @ r) = w @ collapse c r"
  by (induction w) auto

lemma collapse_absent: "c \<notin> set w \<Longrightarrow> collapse c w = w"
  by (induction w) auto

lemma collapse_Nil_iff [simp]: "collapse c q = [] \<longleftrightarrow> q = []"
  by (cases q) auto

lemma segments_Nil [simp]: "segments [] = []"
  by (simp add: segments_def)

lemma segments_slash [simp]: "segments (CHR ''/'' # p) = segments p"
  by (simp add: segments_def)

lemma segments_dropWhile: "segments (dropWhile (\<lambda>y. y = CHR ''/'') p) = segments p"
  by (induction p) auto

lemma segments_append_slash: "segments (a @ CHR ''/'' # b) = segments a @ segments b"
  by (simp add: segments_def split_append_separator)

lemma segments_single: "CHR ''/'' \<notin> set w \<Longrightarrow> w \<noteq> [] \<Longrightarrow> segments w = [w]"
  by (simp add: segments_def split_no_separator)

lemma segments_not_Nil: "\<exists>x\<in>set q. x \<noteq> CHR ''/'' \<Longrightarrow> segments q \<noteq> []"
proof (induction q)
  case Nil
  then show ?case by simp
next
  case (Cons x q)
  show ?case
  proof (cases "x = CHR ''/''")
    case True
    with Cons show ?thesis by auto
  next
    case False
    then show ?thesis by (auto simp: segments_def split: list.splits)
  qed
qed

lemma last_not_separator: "w \<noteq> [] \<Longrightarrow> c \<notin> set w \<Longrightarrow> last w \<noteq> c"
  using last_in_set [of w] by auto

lemma stripTrailingSlash_append:
  "u \<noteq> [] \<Longrightarrow> stripTrailingSlash (v @ u) = v @ stripTrailingSlash u"
  by (simp add: stripTrailingSlash_def butlast_append)

lemma stripLeadingSlash_collapse:
  "stripLeadingSlash (collapse (CHR ''/'') p) = collapse (CHR ''/'') (dropWhile (\<lambda>y. y = CHR ''/'') p)"
  by (cases p) (auto simp: stripLeadingSlash_def)

lemma stripTrailingSlash_collapse:
  "q = [] \<or> hd q \<noteq> CHR ''/'' \<Longrightarrow>
   stripTrailingSlash (collapse (CHR ''/'') q) = join ''/'' (segments q)"
proof (induction "length q" arbitrary: q rule: less_induct)
  case less
  show ?case
  proof (cases q)
    case Nil
    then show ?thesis by (simp add: stripTrailingSlash_def)
  next
    case (Cons x xs)
    define w where "w = takeWhile (\<lambda>y. y \<noteq> CHR ''/'') q"
    define r where "r = dropWhile (\<lambda>y. y \<noteq> CHR ''/'') q"
    have q: "q = w @ r" by (simp add: w_def r_def)
    have x: "x \<noteq> CHR ''/''" using less.prems Cons by simp
    have w1: "w \<noteq> []" "CHR ''/'' \<notin> set w"
      using x Cons by (auto simp: w_def dest: set_takeWhileD)
    have w: "w \<noteq> []" "CHR ''/'' \<notin> set w" "last w \<noteq> CHR ''/''"
      using w1 by (simp_all add: last_not_separator)
    show ?thesis
    proof (cases r)
      case Nil
      with q w show ?thesis
        by (simp add: collapse_absent segments_single stripTrailingSlash_def)
    next
      case (Cons y r')
      have y: "y = CHR ''/''"
        using Cons hd_dropWhile [of "\<lambda>y. y \<noteq> CHR ''/''" q] by (simp add: r_def)
      define q' where "q' = dropWhile (\<lambda>y. y = CHR ''/'') r'"
      have len: "length q' < length q"
        using q Cons length_dropWhile_le [of "\<lambda>y. y = CHR ''/''" r'] by (simp add: q'_def)
      have start: "q' = [] \<or> hd q' \<noteq> CHR ''/''"
        using hd_dropWhile [of "\<lambda>y. y = CHR ''/''" r'] by (auto simp: q'_def)
      have IH: "stripTrailingSlash (collapse (CHR ''/'') q') = join ''/'' (segments q')"
        using less.hyps [OF len start] .
      have segs: "segments q = w # segments q'"
        using q Cons y w by (simp add: segments_append_slash segments_single q'_def segments_dropWhile)
      have coll: "collapse (CHR ''/'') q = w @ CHR ''/'' # collapse (CHR ''/'') q'"
        using q Cons y w by (simp add: collapse_append q'_def)
      show ?thesis
      proof (cases "q' = []")
        case True
        with coll segs w show ?thesis by (simp add: stripTrailingSlash_def)
      next
        case False
        with start have "segments q' \<noteq> []"
          by (intro segments_not_Nil) (cases q', auto)
        then obtain s ss where ss: "segments q' = s # ss" by (cases "segments q'") auto
        have "stripTrailingSlash (collapse (CHR ''/'') q)
               = (w @ ''/'') @ stripTrailingSlash (collapse (CHR ''/'') q')"
          using False coll stripTrailingSlash_append [of "collapse (CHR ''/'') q'" "w @ ''/''"]
          by simp
        with IH segs ss show ?thesis by simp
      qed
    qed
  qed
qed

lemma normalizePath_segments: "normalizePath p = join ''/'' (segments p)"
proof -
  let ?q = "dropWhile (\<lambda>y. y = CHR ''/'') p"
  have "?q = [] \<or> hd ?q \<noteq> CHR ''/''"
    using hd_dropWhile [of "\<lambda>y. y = CHR ''/''" p] by auto
  then show ?thesis
    by (simp add: normalizePath_def stripLeadingSlash_collapse stripTrailingSlash_collapse
        segments_dropWhile)
qed

lemma digitChar_decimal: "d < 10 \<Longrightarrow> digitChar d \<in> set ''0123456789''"
  unfolding digitChar_def by (rule nth_mem) simp

lemma set_showNat: "c \<in> set (showNat n) \<Longrightarrow> c \<in> set ''0123456789''"
proof (induction n rule: showNat.induct)
  case (1 n)
  show ?case
  proof (cases "n < 10")
    case True
    with "1.prems" have "c = digitChar n"
      by (simp add: showNat.simps [of n])
    with True show ?thesis
      using digitChar_decimal [of n] by blast
  next
    case False
    with "1.prems" have "c \<in> set (showNat (n div 10)) \<or> c = digitChar (n mod 10)"
      by (auto simp: showNat.simps [of n])
    with False "1.IH" show ?thesis
      using digitChar_decimal [of "n mod 10"] by fastforce
  qed
qed

lemma set_showInt: "c \<in> set (showInt i) \<Longrightarrow> c = CHR ''-'' \<or> c \<in> set ''0123456789''"
proof (cases "i < 0")
  case True
  assume "c \<in> set (showInt i)"
  with True have "c = CHR ''-'' \<or> c \<in> set (showNat (nat (- i)))"
    by (simp add: showInt_def)
  then show ?thesis using set_showNat by blast
next
  case False
  assume "c \<in> set (showInt i)"
  with False have "c \<in> set (showNat (nat i))"
    by (simp add: showInt_def)
  then show ?thesis using set_showNat by blast
qed

lemma brace_not_in_showInt: "CHR ''{'' \<notin> set (showInt i)"
  using set_showInt [of "CHR ''{''" i] by auto

lemma padStart_two_digits:
  "n < 100 \<Longrightarrow> padStart 2 (CHR ''0'') (showNat n) = [digitChar (n div 10), digitChar (n mod 10)]"
proof (cases "n < 10")
  case True
  then show ?thesis
    by (simp add: padStart_def showNat.simps digitChar_def)
next
  case False
  assume "n < 100"
  with False have "n div 10 < 10" by simp
  with False show ?thesis
    by (simp add: padStart_def showNat.simps [of n] showNat.simps [of "n div 10"])
qed

lemma replace_first:
  "pat \<noteq> [] \<Longrightarrow> hd pat \<notin> set a \<Longrightarrow> replace pat rep (a @ pat @ b) = a @ rep @ b"
proof (induction a)
  case Nil
  then show ?case by (cases pat) simp_all
next
  case (Cons x a)
  then have "\<not> prefix pat (x # a @ pat @ b)"
    by (cases pat) auto
  with Cons show ?case by simp
qed

lemma replace_absent: "pat \<noteq> [] \<Longrightarrow> hd pat \<notin> set s \<Longrightarrow> replace pat rep s = s"
proof (induction s)
  case Nil
  then show ?case by simp
next
  case (Cons x s)
  then have "\<not> prefix pat (x # s)"
    by (cases pat) auto
  with Cons show ?case by simp
qed

lemma generateFilename_dot: "CHR ''.'' \<in> set (generateFilename cfg env filename)"
  by (simp add: generateFilename_def Let_def)


lemma join_append:
  "xs \<noteq> [] \<Longrightarrow> ys \<noteq> [] \<Longrightarrow> join sep (xs @ ys) = join sep xs @ sep @ join sep ys"
proof (induction sep xs rule: join.induct)
  case (1 sep)
  then show ?case by simp
next
  case (2 sep s)
  then show ?case by (cases ys) simp_all
next
  case (3 sep s t ts)
  then show ?case by simp
qed


lemma set_padStart_showNat:
  "c \<in> set (padStart k (CHR ''0'') (showNat n)) \<Longrightarrow> c \<in> set ''0123456789''"
proof -
  assume "c \<in> set (padStart k (CHR ''0'') (showNat n))"
  then have "c = CHR ''0'' \<or> c \<in> set (showNat n)"
    by (auto simp: padStart_def)
  then show ?thesis using set_showNat by fastforce
qed

lemma brace_not_in_padStart: "CHR ''{'' \<notin> set (padStart k (CHR ''0'') (showNat n))"
  using set_padStart_showNat [of "CHR ''{''" k n] by auto

lemma replace_placeholders_in_order:
  assumes "CHR ''{'' \<notin> set (a @ b @ c)" and "CHR ''{'' \<notin> set (Y @ M)"
  shows "replace ''{day}'' D (replace ''{month}'' M (replace ''{year}'' Y
           (a @ ''{year}'' @ b @ ''{month}'' @ c @ ''{day}'' @ d)))
         = a @ Y @ b @ M @ c @ D @ d"
proof -
  have "replace ''{year}'' Y (a @ ''{year}'' @ b @ ''{month}'' @ c @ ''{day}'' @ d)
        = a @ Y @ b @ ''{month}'' @ c @ ''{day}'' @ d"
    using assms replace_first [of "''{year}''" a Y "b @ ''{month}'' @ c @ ''{day}'' @ d"]
    by simp
  moreover have "replace ''{month}'' M ((a @ Y @ b) @ ''{month}'' @ c @ ''{day}'' @ d)
        = (a @ Y @ b) @ M @ c @ ''{day}'' @ d"
    using assms by (intro replace_first) auto
  moreover have "replace ''{day}'' D ((a @ Y @ b @ M @ c) @ ''{day}'' @ d)
        = (a @ Y @ b @ M @ c) @ D @ d"
    using assms by (intro replace_first) auto
  ultimately show ?thesis by simp
qed



lemma set_collapse: "set (collapse c s) \<subseteq> set s"
proof (induction c s rule: collapse.induct)
  case (1 c)
  then show ?case by simp
next
  case (2 c x xs)
  show ?case
  proof (cases "x = c")
    case True
    with 2 have "set (collapse c (dropWhile (\<lambda>y. y = c) xs)) \<subseteq> set xs"
      using set_dropWhileD [of _ "\<lambda>y. y = c" xs] by blast
    with True show ?thesis by auto
  next
    case False
    with 2 show ?thesis by auto
  qed
qed

lemma set_trimDashes: "set (trimDashes s) \<subseteq> set s"
proof
  fix c
  assume "c \<in> set (trimDashes s)"
  then have "c \<in> set (dropWhile (\<lambda>c. c = CHR ''-'') (rev (dropWhile (\<lambda>c. c = CHR ''-'') s)))"
    by (simp add: trimDashes_def)
  then have "c \<in> set (dropWhile (\<lambda>c. c = CHR ''-'') s)"
    using set_dropWhileD by fastforce
  then show "c \<in> set s"
    by (rule set_dropWhileD)
qed

lemma allowedChar_replaceDisallowed: "c \<in> set (replaceDisallowed s) \<Longrightarrow> allowedChar c"
proof -
  have dash: "allowedChar (CHR ''-'')" by (simp add: allowedChar_def)
  assume "c \<in> set (replaceDisallowed s)"
  with dash show ?thesis by (auto simp: replaceDisallowed_def)
qed

lemma allowedChar_sanitize: "c \<in> set (sanitize s) \<Longrightarrow> allowedChar c"
  using set_trimDashes set_collapse allowedChar_replaceDisallowed
  unfolding sanitize_def by blast



lemma hd_collapse: "q \<noteq> [] \<Longrightarrow> hd (collapse c q) = hd q"
  by (cases q) auto

lemma no_run_collapse: "\<not> sublist [c, c] (collapse c s)"
proof (induction c s rule: collapse.induct)
  case (1 c)
  then show ?case by simp
next
  case (2 c x xs)
  show ?case
  proof (cases "x = c")
    case True
    define q where "q = dropWhile (\<lambda>y. y = c) xs"
    have "q = [] \<or> hd q \<noteq> c"
      using hd_dropWhile [of "\<lambda>y. y = c" xs] by (auto simp: q_def)
    then have "\<not> prefix [c] (collapse c q)"
    proof (cases "q = []")
      case True
      then show ?thesis by simp
    next
      case False
      moreover assume "q = [] \<or> hd q \<noteq> c"
      ultimately have "hd (collapse c q) \<noteq> c"
        using hd_collapse [of q c] by simp
      then show ?thesis by (cases "collapse c q") auto
    qed
    moreover have "\<not> sublist [c, c] (collapse c q)"
      using 2 True by (simp add: q_def)
    ultimately show ?thesis
      using True by (simp add: sublist_Cons_right q_def)
  next
    case False
    with 2 show ?thesis by (simp add: sublist_Cons_right)
  qed
qed

lemma collapse_no_run: "\<not> sublist [c, c] s \<Longrightarrow> collapse c s = s"
proof (induction s)
  case Nil
  then show ?case by simp
next
  case (Cons x xs)
  then have tl: "collapse c xs = xs" and hd: "\<not> prefix [c, c] (x # xs)"
    by (simp_all add: sublist_Cons_right)
  show ?case
  proof (cases "x = c")
    case True
    with hd have "dropWhile (\<lambda>y. y = c) xs = xs"
      by (cases xs) auto
    with True tl show ?thesis by simp
  next
    case False
    with tl show ?thesis by simp
  qed
qed

lemma sublist_trimDashes: "sublist (trimDashes s) s"
proof -
  let ?P = "\<lambda>c. c = CHR ''-''"
  have "suffix (dropWhile ?P (rev (dropWhile ?P s))) (rev (dropWhile ?P s))"
    by (rule suffix_dropWhile)
  then have "prefix (trimDashes s) (dropWhile ?P s)"
    by (simp add: suffix_to_prefix trimDashes_def)
  moreover have "suffix (dropWhile ?P s) s"
    by (rule suffix_dropWhile)
  ultimately show ?thesis
    by (meson prefix_imp_sublist suffix_imp_sublist sublist_order.order_trans)
qed

lemma trimDashes_idempotent: "trimDashes (trimDashes s) = trimDashes s"
proof -
  let ?P = "\<lambda>c. c = CHR ''-''"
  define a where "a = dropWhile ?P s"
  define b where "b = rev (dropWhile ?P (rev a))"
  have b: "b = trimDashes s" by (simp add: a_def b_def trimDashes_def)
  have pre: "prefix b a"
    using suffix_dropWhile [of ?P "rev a"] by (simp add: suffix_to_prefix b_def)
  have a: "a = [] \<or> \<not> ?P (hd a)"
    using hd_dropWhile [of ?P s] by (auto simp: a_def)
  have "b = [] \<or> \<not> ?P (hd b)"
  proof (cases b)
    case Nil
    then show ?thesis by simp
  next
    case (Cons y ys)
    with pre obtain zs where "a = y # zs" by (auto simp: prefix_def)
    with a Cons show ?thesis by simp
  qed
  then have "dropWhile ?P b = b"
    by (cases b) auto
  then have "trimDashes b = rev (dropWhile ?P (rev b))"
    by (simp add: trimDashes_def)
  also have "\<dots> = b"
    by (simp add: b_def)
  finally show ?thesis by (simp add: b)
qed

lemma replaceDisallowed_allowed:
  "(\<And>c. c \<in> set s \<Longrightarrow> allowedChar c) \<Longrightarrow> replaceDisallowed s = s"
  by (induction s) (simp_all add: replaceDisallowed_def)

lemma sanitize_idempotent: "sanitize (sanitize s) = sanitize s"
proof -
  define t where "t = sanitize s"
  have "replaceDisallowed t = t"
    using allowedChar_sanitize [of _ s] by (intro replaceDisallowed_allowed) (simp add: t_def)
  moreover have "\<not> sublist ''--'' t"
  proof
    assume "sublist ''--'' t"
    then have "sublist ''--'' (collapse (CHR ''-'') (replaceDisallowed s))"
      using sublist_trimDashes [of "collapse (CHR ''-'') (replaceDisallowed s)"]
      by (auto simp: t_def sanitize_def intro: sublist_order.order_trans)
    then show False
      using no_run_collapse [of "CHR ''-''" "replaceDisallowed s"] by simp
  qed
  then have "collapse (CHR ''-'') t = t"
    by (intro collapse_no_run) simp
  moreover have "trimDashes t = t"
    by (simp add: t_def sanitize_def trimDashes_idempotent)
  ultimately show ?thesis
    by (simp add: sanitize_def [of t] t_def [symmetric])
qed

lemma generateFilename_original:
  "nameRule cfg \<noteq> ''timestamp'' \<Longrightarrow> nameRule cfg \<noteq> ''random'' \<Longrightarrow>
   generateFilename cfg env s =
     sanitize (takeWhile (\<lambda>c. c \<noteq> CHR ''.'') s) @ ''.'' @ toLowerCase (last (split (CHR ''.'') s))"
  by (simp add: generateFilename_def Let_def hd_split)

lemma generateFilename_original_one_dot:
  "nameRule cfg \<noteq> ''timestamp'' \<Longrightarrow> nameRule cfg \<noteq> ''random'' \<Longrightarrow>
   CHR ''.'' \<notin> set a \<Longrightarrow> CHR ''.'' \<notin> set b \<Longrightarrow>
   generateFilename cfg env (a @ ''.'' @ b) = sanitize a @ ''.'' @ toLowerCase b"
proof -
  assume rule: "nameRule cfg \<noteq> ''timestamp''" "nameRule cfg \<noteq> ''random''"
    and a: "CHR ''.'' \<notin> set a" and b: "CHR ''.'' \<notin> set b"
  from a have "takeWhile (\<lambda>c. c \<noteq> CHR ''.'') a = a"
    by (auto simp: takeWhile_eq_all_conv)
  then have "takeWhile (\<lambda>c. c \<noteq> CHR ''.'') (a @ ''.'' @ b) = a"
    by (simp add: takeWhile_tail)
  with rule b show ?thesis
    using last_split_separator [of "CHR ''.''" b a]
    by (simp add: generateFilename_original)
qed

lemma generateFilename_original_example:
  "nameRule cfg = ''original'' \<Longrightarrow>
   generateFilename cfg env ''My Photo!!.PNG'' = ''My-Photo.png''"
  by (simp add: generateFilename_def toLowerCase_def toLowerCaseChar_def sanitize_def
      trimDashes_def replaceDisallowed_def allowedChar_def)

lemma random_basename:
  "nameRule cfg = ''random'' \<Longrightarrow> length (mathRandom36 env) \<ge> 10 \<Longrightarrow>
   \<exists>b. generateFilename cfg env s = b @ ''.'' @ toLowerCase (last (split (CHR ''.'') s)) \<and>
       length b = 8 \<and> b = take 8 (drop 2 (mathRandom36 env))"
  by (simp add: generateFilename_def Let_def substring_def)

section \<open>Validation and processing of a file\<close>

text \<open>
  C1, as stated: \<open>validateFile\<close> would return the size-limit message exactly when
  \<open>sizeBytes / 1e6 > maxFileSizeMB\<close>. A file of 10200000 bytes under a limit of 10 has
  \<open>sizeBytes / 1e6 = 10.2 > 10\<close>, and \<open>validateFile\<close> returns \<open>true\<close> for it: the source
  divides by \<open>1024 * 1024\<close>.
\<close>

theorem validateFile_decimal_megabyte_counterexample:
  "(of_nat 10200000 :: rat) / 1000000 > 10 \<and>
   validateFile
     \<lparr>uploadPath = ''{year}/{month}/{day}'', nameRule = ''original'',
      allowedTypes = [''image/png''], maxFileSize = 10\<rparr>
     \<lparr>name = ''a.png'', uploadableFile.type = ''image/png'', uploadableFile.size = 10200000\<rparr> = ValidTrue"
  by (simp add: validateFile_def)

text \<open>
  C1, amended: for every file and every manager configuration, \<open>validateFile\<close> returns the
  size-limit message, stating the configured limit, exactly when
  \<open>sizeBytes / (1024 * 1024) > maxFileSize\<close>; it returns the unsupported-format message
  exactly when the size check passes and the mime type is not in \<open>allowedTypes\<close>; it returns
  \<open>true\<close> otherwise. So the size check comes before the type check. Whenever
  \<open>validateFile\<close> does not return \<open>true\<close>, \<open>processFile\<close> returns that message with no file
  and never invokes the compression collaborator.
\<close>

theorem validateFile_processFile:
  "(validateFile cfg f = Invalid (SizeLimitMessage (maxFileSize cfg))
      \<longleftrightarrow> of_nat (uploadableFile.size f) / (1024 * 1024) > maxFileSize cfg) \<and>
   (validateFile cfg f = Invalid UnsupportedFormatMessage
      \<longleftrightarrow> \<not> of_nat (uploadableFile.size f) / (1024 * 1024) > maxFileSize cfg \<and>
          uploadableFile.type f \<notin> set (allowedTypes cfg)) \<and>
   (validateFile cfg f = ValidTrue
      \<longleftrightarrow> \<not> of_nat (uploadableFile.size f) / (1024 * 1024) > maxFileSize cfg \<and>
          uploadableFile.type f \<in> set (allowedTypes cfg)) \<and>
   (\<forall>m. validateFile cfg f = Invalid m \<longrightarrow>
      processFile cfg compress f = (\<lparr>resultFile = None, resultError = Some m\<rparr>, []))"
  by (simp add: validateFile_def processFile_def Let_def)

theorem validateFile_processFile_witness:
  "processFile
     \<lparr>uploadPath = ''{year}/{month}/{day}'', nameRule = ''original'',
      allowedTypes = [''image/png''], maxFileSize = 10\<rparr>
     (\<lambda>f. Inr f)
     \<lparr>name = ''a.png'', uploadableFile.type = ''image/png'', uploadableFile.size = 10485761\<rparr>
   = (\<lparr>resultFile = None, resultError = Some (SizeLimitMessage 10)\<rparr>, [])"
proof -
  let ?cfg = "\<lparr>uploadPath = ''{year}/{month}/{day}'', nameRule = ''original'',
      allowedTypes = [''image/png''], maxFileSize = 10\<rparr>"
  let ?f = "\<lparr>name = ''a.png'', uploadableFile.type = ''image/png'', uploadableFile.size = 10485761\<rparr>"
  have "validateFile ?cfg ?f = Invalid (SizeLimitMessage 10)"
    by (simp add: validateFile_def)
  with validateFile_processFile [of ?cfg ?f "\<lambda>f. Inr f"] show ?thesis
    by blast
qed

section \<open>The Telegram adapter\<close>

text \<open>
  C4: for every pair of a mime type and a file name, the endpoint is chosen in this
  order of priority. With \<open>ext\<close> the text after the final \<open>.\<close> of the name, lower-cased
  (the whole name when it has no \<open>.\<close>): \<open>ext\<close> is \<open>gif\<close> or \<open>webp\<close>, or the mime type is
  \<open>image/gif\<close>: the animation endpoint; else the mime type is \<open>image/svg+xml\<close> or
  \<open>image/x-icon\<close>: the document endpoint; else it starts with \<open>image/\<close>: photo; with
  \<open>video/\<close>: video; with \<open>audio/\<close>: audio; anything else: document. In particular
  \<open>(image/gif, a.gif)\<close> gives animation, \<open>(image/svg+xml, a.svg)\<close> document,
  \<open>(image/png, a.png)\<close> photo, \<open>(video/mp4, a.mp4)\<close> video and
  \<open>(application/zip, a.zip)\<close> document.
\<close>

theorem getSendFunction_priority:
  "(let ext = toLowerCase (last (split (CHR ''.'') fileName));
        animation = (ext = ''gif'' \<or> ext = ''webp'' \<or> fileType = ''image/gif'');
        vector = (fileType = ''image/svg+xml'' \<or> fileType = ''image/x-icon'')
    in (animation \<longrightarrow>
          getSendFunction fileType fileName =
            \<lparr>sendFunction.url = ''sendAnimation'', type = ''animation''\<rparr>) \<and>
       (\<not> animation \<and> vector \<longrightarrow>
          getSendFunction fileType fileName =
            \<lparr>sendFunction.url = ''sendDocument'', type = ''document''\<rparr>) \<and>
       (\<not> animation \<and> \<not> vector \<and> startsWith fileType ''image/'' \<longrightarrow>
          getSendFunction fileType fileName =
            \<lparr>sendFunction.url = ''sendPhoto'', type = ''photo''\<rparr>) \<and>
       (\<not> animation \<and> \<not> vector \<and> \<not> startsWith fileType ''image/'' \<and>
        startsWith fileType ''video/'' \<longrightarrow>
          getSendFunction fileType fileName =
            \<lparr>sendFunction.url = ''sendVideo'', type = ''video''\<rparr>) \<and>
       (\<not> animation \<and> \<not> vector \<and> \<not> startsWith fileType ''image/'' \<and>
        \<not> startsWith fileType ''video/'' \<and> startsWith fileType ''audio/'' \<longrightarrow>
          getSendFunction fileType fileName =
            \<lparr>sendFunction.url = ''sendAudio'', type = ''audio''\<rparr>) \<and>
       (\<not> animation \<and> \<not> vector \<and> \<not> startsWith fileType ''image/'' \<and>
        \<not> startsWith fileType ''video/'' \<and> \<not> startsWith fileType ''audio/'' \<longrightarrow>
          getSendFunction fileType fileName =
            \<lparr>sendFunction.url = ''sendDocument'', type = ''document''\<rparr>)) \<and>
   getSendFunction ''image/gif'' ''a.gif'' =
     \<lparr>sendFunction.url = ''sendAnimation'', type = ''animation''\<rparr> \<and>
   getSendFunction ''image/svg+xml'' ''a.svg'' =
     \<lparr>sendFunction.url = ''sendDocument'', type = ''document''\<rparr> \<and>
   getSendFunction ''image/png'' ''a.png'' =
     \<lparr>sendFunction.url = ''sendPhoto'', type = ''photo''\<rparr> \<and>
   getSendFunction ''video/mp4'' ''a.mp4'' =
     \<lparr>sendFunction.url = ''sendVideo'', type = ''video''\<rparr> \<and>
   getSendFunction ''application/zip'' ''a.zip'' =
     \<lparr>sendFunction.url = ''sendDocument'', type = ''document''\<rparr>"
proof -
  have order: "?thesis \<longleftrightarrow>
    getSendFunction ''image/gif'' ''a.gif'' =
      \<lparr>sendFunction.url = ''sendAnimation'', type = ''animation''\<rparr> \<and>
    getSendFunction ''image/svg+xml'' ''a.svg'' =
      \<lparr>sendFunction.url = ''sendDocument'', type = ''document''\<rparr> \<and>
    getSendFunction ''image/png'' ''a.png'' =
      \<lparr>sendFunction.url = ''sendPhoto'', type = ''photo''\<rparr> \<and>
    getSendFunction ''video/mp4'' ''a.mp4'' =
      \<lparr>sendFunction.url = ''sendVideo'', type = ''video''\<rparr> \<and>
    getSendFunction ''application/zip'' ''a.zip'' =
      \<lparr>sendFunction.url = ''sendDocument'', type = ''document''\<rparr>"
    unfolding getSendFunction_def Let_def by auto
  have gif: "getSendFunction ''image/gif'' ''a.gif'' =
      \<lparr>sendFunction.url = ''sendAnimation'', type = ''animation''\<rparr>"
    by (simp add: getSendFunction_def)
  have svg: "getSendFunction ''image/svg+xml'' ''a.svg'' =
      \<lparr>sendFunction.url = ''sendDocument'', type = ''document''\<rparr>"
    by (simp add: getSendFunction_def toLowerCase_def toLowerCaseChar_def)
  have png: "getSendFunction ''image/png'' ''a.png'' =
      \<lparr>sendFunction.url = ''sendPhoto'', type = ''photo''\<rparr>"
    by (simp add: getSendFunction_def toLowerCase_def toLowerCaseChar_def startsWith_def)
  have mp4: "getSendFunction ''video/mp4'' ''a.mp4'' =
      \<lparr>sendFunction.url = ''sendVideo'', type = ''video''\<rparr>"
    by (simp add: getSendFunction_def toLowerCase_def toLowerCaseChar_def startsWith_def)
  have zip: "getSendFunction ''application/zip'' ''a.zip'' =
      \<lparr>sendFunction.url = ''sendDocument'', type = ''document''\<rparr>"
    by (simp add: getSendFunction_def toLowerCase_def toLowerCaseChar_def startsWith_def)
  from order gif svg png mp4 zip show ?thesis by blast
qed

theorem getSendFunction_priority_witness:
  "getSendFunction ''image/jpeg'' ''photo.JPG'' =
     \<lparr>sendFunction.url = ''sendPhoto'', type = ''photo''\<rparr>"
  using getSendFunction_priority [of "''photo.JPG''" "''image/jpeg''"]
  by (simp add: toLowerCase_def toLowerCaseChar_def startsWith_def)



lemma deleteKey_no_entries:
  "localStorage b = NotAnArray \<or> localStorage b = ArrayWithNull \<Longrightarrow>
   deleteKey k b = (Rejected ''TypeError'', b)"
  by (auto simp: deleteKey_def getLocalIndex_def)

lemma listObjects_no_entries:
  "localStorage b = NotAnArray \<or> localStorage b = ArrayWithNull \<Longrightarrow>
   listObjects p b = (Rejected ''TypeError'', b)"
  by (auto simp: listObjects_def getLocalIndex_def)

lemma deleteKey_no_room:
  "localStorage b = NoItem \<or> localStorage b = Unreadable \<Longrightarrow> \<not> room b [] \<Longrightarrow>
   deleteKey k b = (Resolved (), b\<lparr>console := console b @ [ConsoleError, ConsoleWarn]\<rparr>)"
  by (auto simp: deleteKey_def getLocalIndex_def saveLocalIndex_def setItemStores_def)

lemma saveLocalIndex_no_room:
  "\<not> setItemStores b index \<Longrightarrow>
   localStorage (saveLocalIndex index b) = localStorage b \<and>
   console (saveLocalIndex index b) = console b @ [ConsoleError]"
  by (simp add: saveLocalIndex_def)

lemma getFilePath_requests:
  "requests (snd (getFilePath a service fileIdentifier b)) =
     requests b @ [baseURL a @ ''/getFile?file_id='' @ fileIdentifier]"
  by (simp add: getFilePath_def Let_def split: answer.splits)

text \<open>
  C6: for every content of the local index and every prefix argument, \<open>listObjects\<close>
  resolves with exactly the entries whose key starts with the prefix (all of them when
  no prefix is given), each as \<open>{key, url, lastModified, size}\<close>, in the order of falling
  \<open>lastModified\<close>; it leaves the browser as it was. The content is what the store
  holds: the array of entries \<open>idx\<close>, or nothing readable, for which the result is
  empty.
\<close>

theorem listObjects_prefix_descending:
  "(localStorage b = StoredIndex idx \<longrightarrow>
      (\<exists>objs.
         listObjects p b = (Resolved objs, b) \<and>
         mset objs =
           image_mset
             (\<lambda>item. \<lparr>key = key item, url = url item,
                        lastModified = lastModified item, size = size item\<rparr>)
             (filter_mset (\<lambda>item. prefix (case p of None \<Rightarrow> [] | Some s \<Rightarrow> s) (key item))
                (mset idx)) \<and>
         sorted_wrt (\<lambda>x y. lastModified x \<ge> lastModified y) objs)) \<and>
   (localStorage b = NoItem \<or> localStorage b = Unreadable \<longrightarrow>
      listObjects p b = (Resolved [], b))"
proof (intro conjI impI)
  have falling:
    "sorted_wrt (\<lambda>x y. lastModified x \<ge> lastModified y)
       (sort_key (\<lambda>item. - lastModified item) xs)"
    for xs :: "indexRecord list"
    using sorted_sort_key [of "\<lambda>item. - lastModified item" xs]
    by (simp add: sorted_wrt_map)
  assume "localStorage b = StoredIndex idx"
  then show "\<exists>objs.
         listObjects p b = (Resolved objs, b) \<and>
         mset objs =
           image_mset
             (\<lambda>item. \<lparr>key = key item, url = url item,
                        lastModified = lastModified item, size = size item\<rparr>)
             (filter_mset (\<lambda>item. prefix (case p of None \<Rightarrow> [] | Some s \<Rightarrow> s) (key item))
                (mset idx)) \<and>
         sorted_wrt (\<lambda>x y. lastModified x \<ge> lastModified y) objs"
    by (cases p)
      (simp_all add: listObjects_def getLocalIndex_def Let_def startsWith_def sorted_wrt_map
        falling)
next
  assume "localStorage b = NoItem \<or> localStorage b = Unreadable"
  then show "listObjects p b = (Resolved [], b)"
    by (auto simp: listObjects_def getLocalIndex_def Let_def)
qed

theorem listObjects_prefix_descending_witness:
  "listObjects (Some ''2024/'')
     \<lparr>localStorage = StoredIndex
        [\<lparr>key = ''2024/03/05/a.png'', url = ''u1'', lastModified = 1709596800000, size = 10,
          fileId = ''f1'', filePath = ''photos/1''\<rparr>,
         \<lparr>key = ''2023/12/31/b.png'', url = ''u2'', lastModified = 1703980800000, size = 20,
          fileId = ''f2'', filePath = ''photos/2''\<rparr>,
         \<lparr>key = ''2024/03/06/c.png'', url = ''u3'', lastModified = 1709683200000, size = 30,
          fileId = ''f3'', filePath = ''photos/3''\<rparr>],
      room = (\<lambda>index. False), console = [], requests = []\<rparr>
   = (Resolved
        [\<lparr>key = ''2024/03/06/c.png'', url = ''u3'', lastModified = 1709683200000, size = 30\<rparr>,
         \<lparr>key = ''2024/03/05/a.png'', url = ''u1'', lastModified = 1709596800000, size = 10\<rparr>],
      \<lparr>localStorage = StoredIndex
        [\<lparr>key = ''2024/03/05/a.png'', url = ''u1'', lastModified = 1709596800000, size = 10,
          fileId = ''f1'', filePath = ''photos/1''\<rparr>,
         \<lparr>key = ''2023/12/31/b.png'', url = ''u2'', lastModified = 1703980800000, size = 20,
          fileId = ''f2'', filePath = ''photos/2''\<rparr>,
         \<lparr>key = ''2024/03/06/c.png'', url = ''u3'', lastModified = 1709683200000, size = 30,
          fileId = ''f3'', filePath = ''photos/3''\<rparr>],
      room = (\<lambda>index. False), console = [], requests = []\<rparr>) \<and>
   listObjects None
     \<lparr>localStorage = NoItem, room = (\<lambda>index. True), console = [], requests = []\<rparr>
   = (Resolved [],
      \<lparr>localStorage = NoItem, room = (\<lambda>index. True), console = [], requests = []\<rparr>)"
proof -
  let ?idx = "[\<lparr>key = ''2024/03/05/a.png'', url = ''u1'', lastModified = 1709596800000,
                size = 10, fileId = ''f1'', filePath = ''photos/1''\<rparr>,
               \<lparr>key = ''2023/12/31/b.png'', url = ''u2'', lastModified = 1703980800000,
                size = 20, fileId = ''f2'', filePath = ''photos/2''\<rparr>,
               \<lparr>key = ''2024/03/06/c.png'', url = ''u3'', lastModified = 1709683200000,
                size = 30, fileId = ''f3'', filePath = ''photos/3''\<rparr>]"
  let ?b = "\<lparr>localStorage = StoredIndex ?idx, room = (\<lambda>index. False), console = [],
             requests = []\<rparr>"
  let ?e = "\<lparr>localStorage = NoItem, room = (\<lambda>index. True), console = [],
             requests = []\<rparr>"
  have stored: "localStorage ?b = StoredIndex ?idx"
    by simp
  from listObjects_prefix_descending [of ?b ?idx "Some ''2024/''"] stored
  obtain objs where objs: "listObjects (Some ''2024/'') ?b = (Resolved objs, ?b)"
    by blast
  from objs have "objs =
        [\<lparr>key = ''2024/03/06/c.png'', url = ''u3'', lastModified = 1709683200000, size = 30\<rparr>,
         \<lparr>key = ''2024/03/05/a.png'', url = ''u1'', lastModified = 1709596800000, size = 10\<rparr>]"
    by (simp add: listObjects_def getLocalIndex_def startsWith_def)
  with objs have "listObjects (Some ''2024/'') ?b =
      (Resolved
        [\<lparr>key = ''2024/03/06/c.png'', url = ''u3'', lastModified = 1709683200000, size = 30\<rparr>,
         \<lparr>key = ''2024/03/05/a.png'', url = ''u1'', lastModified = 1709596800000, size = 10\<rparr>],
       ?b)"
    by simp
  moreover have absent: "localStorage ?e = NoItem \<or> localStorage ?e = Unreadable"
    by simp
  have "listObjects None ?e = (Resolved [], ?e)"
    using listObjects_prefix_descending [of ?e "[]" None] absent by blast
  ultimately show ?thesis
    by simp
qed

section \<open>Validation of a storage configuration\<close>

lemma storageService_known:
  "t \<in> set [''s3'', ''oss'', ''cos'', ''telegram''] \<Longrightarrow> truthyProperty (storageService t)"
  by (auto simp: storageService_def STORAGE_SERVICES_def getProperty_def)

lemma storageService_unrecognized:
  "t \<notin> set [''s3'', ''oss'', ''cos'', ''telegram''] \<Longrightarrow> t \<notin> set objectPrototypeNames \<Longrightarrow>
   storageService t = Undefined"
  by (simp add: storageService_def STORAGE_SERVICES_def getProperty_def)

lemma getRequiredFields_known:
  "getRequiredFields ''s3'' = Inr [''region'', ''bucket'', ''accessKey'', ''secretKey'']"
  "getRequiredFields ''oss'' = Inr [''endpoint'', ''bucket'', ''accessKey'', ''secretKey'']"
  "getRequiredFields ''cos'' = Inr [''region'', ''bucket'', ''secretId'', ''secretKey'']"
  "getRequiredFields ''telegram'' = Inr [''botToken'', ''chatId'']"
  by (simp_all add: getRequiredFields_def storageService_def STORAGE_SERVICES_def
      getProperty_def objectPrototypeNames_def)

lemma validateStorageConfig_unrecognized:
  "t \<notin> set [''s3'', ''oss'', ''cos'', ''telegram''] \<Longrightarrow> t \<notin> set objectPrototypeNames \<Longrightarrow>
   validateStorageConfig t config = Inr \<lparr>isValid = False, message = InvalidStorageType\<rparr>"
  by (simp add: validateStorageConfig_def storageService_unrecognized)

lemma validateStorageConfig_known_type:
  assumes "t \<in> set [''s3'', ''oss'', ''cos'', ''telegram'']"
  shows "\<exists>required. getRequiredFields t = Inr required \<and> required \<noteq> [] \<and>
     validateStorageConfig t None = Inr \<lparr>isValid = True, message = ConfigEmpty\<rparr> \<and>
     (\<forall>c. validateStorageConfig t (Some c) =
        Inr (if \<forall>field\<in>set required. fieldEmpty c field
               then \<lparr>isValid = True, message = ConfigEmpty\<rparr>
             else if \<exists>field\<in>set required. fieldEmpty c field
               then \<lparr>isValid = False, message = FillAllOrClearAll\<rparr>
             else \<lparr>isValid = True, message = ValidationPassed\<rparr>))"
proof -
  obtain required where r: "getRequiredFields t = Inr required" "required \<noteq> []"
    using assms getRequiredFields_known by auto
  have "validateStorageConfig t None = Inr \<lparr>isValid = True, message = ConfigEmpty\<rparr>"
    using assms r by (simp add: validateStorageConfig_def storageService_known)
  moreover have "validateStorageConfig t (Some c) =
        Inr (if \<forall>field\<in>set required. fieldEmpty c field
               then \<lparr>isValid = True, message = ConfigEmpty\<rparr>
             else if \<exists>field\<in>set required. fieldEmpty c field
               then \<lparr>isValid = False, message = FillAllOrClearAll\<rparr>
             else \<lparr>isValid = True, message = ValidationPassed\<rparr>)" for c
    using assms r
    by (auto simp: validateStorageConfig_def storageService_known Let_def list_all_iff
        filter_empty_conv)
  ultimately show ?thesis using r by blast
qed

lemma fieldEmpty_blank: "fieldEmpty (\<lambda>k. if k = ''region'' then Some ''   '' else None) ''region''"
  by (simp add: fieldEmpty_def trim_def isWhiteSpace_def)

lemma storageService_constructor: "storageService ''constructor'' = Inherited"
  by (simp add: storageService_def STORAGE_SERVICES_def getProperty_def objectPrototypeNames_def)

text \<open>
  C5 says that an unrecognized type tag gives \<open>isValid = false\<close> whatever the
  configuration. The tag \<open>constructor\<close> names no storage service, but
  \<open>STORAGE_SERVICES['constructor']\<close> is the function \<open>Object\<close>, inherited from
  \<open>Object.prototype\<close> and truthy: the guard of \<open>validateStorageConfig\<close> lets it pass, and
  \<open>getRequiredFields\<close> throws a \<open>TypeError\<close>. No result is returned. For the four tags
  of the catalogue the results are the ones the claim states
  (\<open>validateStorageConfig_known_type\<close>), and every other tag that is not a name of
  \<open>Object.prototype\<close> is rejected (\<open>validateStorageConfig_unrecognized\<close>).
\<close>

theorem validateStorageConfig_inherited_name:
  "validateStorageConfig ''constructor'' config = Inl TypeError"
  by (simp add: validateStorageConfig_def getRequiredFields_def storageService_constructor)

section \<open>The static accessors\<close>

lemma getSupportedStorages_new_object:
  "getSupportedStorages storageServices h = (copy, h') \<Longrightarrow>
   copy = HRef (length h) \<and> length h' = Suc (length h) \<and> take (length h) h' = h \<and>
   objectAt h' copy = Some (HObject (spreadProperties h storageServices))"
  by (auto simp: getSupportedStorages_def objectAt_def)

lemma getSupportedStorages_top_level_private:
  "getSupportedStorages storageServices h = (copy, h') \<Longrightarrow> a < length h \<Longrightarrow>
   objectAt (writeProperty h' copy k v) (HRef a) = objectAt h (HRef a)"
  by (auto simp: getSupportedStorages_def objectAt_def writeProperty_def nth_append)

lemma getDefaultSettings_nested_copies:
  "getDefaultSettings DEFAULT_SETTINGS h = Inr (settings, h') \<Longrightarrow>
   settings = HRef (length h + 2) \<and>
   readProperty h' settings ''allowedTypes'' = Some (HRef (length h)) \<and>
   readProperty h' settings ''image'' = Some (HRef (length h + 1))"
  by (auto simp: getDefaultSettings_def Let_def readProperty_def spreadProperties_def
      objectAt_def nth_append update_conv' split: option.splits)

lemmas heap_access =
  getSupportedStorages_def readProperty_def writeProperty_def push_def spreadProperties_def
  objectAt_def spreadElements_def nth_append

text \<open>
  C8 says that no mutation through a value an accessor returned, nested objects and
  arrays included, changes what later calls observe. \<open>getSupportedStorages\<close> returns
  \<open>{...STORAGE_SERVICES}\<close>, a new object whose properties still refer to the service
  objects of the module. After the module has evaluated the literal: a caller that sets
  \<open>icon\<close> of \<open>telegram\<close> in the first copy changes what the second call returns, and so
  does a caller that pushes an element on \<open>fields\<close> of \<open>s3\<close>. What the copy does protect
  is its own level: a write to a property of the returned object leaves the objects of the
  module as they were (\<open>getSupportedStorages_top_level_private\<close>). \<open>getDefaultSettings\<close>
  goes one level further and gives its result a new \<open>allowedTypes\<close> array and a new
  \<open>image\<close> object (\<open>getDefaultSettings_nested_copies\<close>).
\<close>

theorem getSupportedStorages_shares_nested:
  "(case allocate STORAGE_SERVICES [] of
      (storageServices, h0) \<Rightarrow>
        (case getSupportedStorages storageServices h0 of
           (copy1, h1) \<Rightarrow>
             (case readProperty h1 copy1 ''telegram'' of
                None \<Rightarrow> False
              | Some telegram \<Rightarrow>
                  readProperty h1 telegram ''icon'' = Some (HString ''ChatDotRound'') \<and>
                  (case getSupportedStorages storageServices
                          (writeProperty h1 telegram ''icon'' (HString ''Changed'')) of
                     (copy2, h2) \<Rightarrow>
                       copy2 \<noteq> copy1 \<and>
                       Option.bind (readProperty h2 copy2 ''telegram'')
                         (\<lambda>t. readProperty h2 t ''icon'') = Some (HString ''Changed''))) \<and>
             (case Option.bind (readProperty h1 copy1 ''s3'')
                     (\<lambda>s. readProperty h1 s ''fields'') of
                None \<Rightarrow> False
              | Some fieldList \<Rightarrow>
                  map_option length (spreadElements h1 fieldList) = Some 5 \<and>
                  (case getSupportedStorages storageServices
                          (push h1 fieldList (HString ''extra'')) of
                     (copy2, h2) \<Rightarrow>
                       copy2 \<noteq> copy1 \<and>
                       map_option length
                         (Option.bind
                            (Option.bind (readProperty h2 copy2 ''s3'')
                               (\<lambda>s. readProperty h2 s ''fields''))
                            (spreadElements h2)) = Some 6))))"
  by (simp add: STORAGE_SERVICES_def heap_access)

section \<open>Generation of the destination path\<close>

text \<open>
  C7: for every template and file name, \<open>generatePath\<close> replaces \<open>{year}\<close> by the
  current year, \<open>{month}\<close> by the month in two digits with a leading zero and \<open>{day}\<close>
  by the day in two digits with a leading zero (each \<open>String.replace\<close> acts on the first
  occurrence of its placeholder), appends \<open>/\<close> and the generated file name, and
  normalizes: the result is the non-empty segments of that text joined by single \<open>/\<close>,
  so without repeated, leading or trailing separator. The template
  \<open>{year}/{month}/{day}\<close> on 2024-03-05 gives the directory \<open>2024/03/05\<close>.
\<close>

theorem generatePath_substitutes_normalizes:
  "(let year = showInt (getFullYear env);
        month = padStart 2 (CHR ''0'') (showNat (getMonth env + 1));
        day = padStart 2 (CHR ''0'') (showNat (getDate env));
        path = replace ''{day}'' day (replace ''{month}'' month
                 (replace ''{year}'' year (uploadPath cfg)))
    in generatePath cfg env filename =
         join ''/'' (segments (path @ ''/'' @ generateFilename cfg env filename)) \<and>
       (getMonth env < 12 \<longrightarrow>
          month = [digitChar ((getMonth env + 1) div 10), digitChar ((getMonth env + 1) mod 10)]) \<and>
       (getDate env \<le> 31 \<longrightarrow>
          day = [digitChar (getDate env div 10), digitChar (getDate env mod 10)]) \<and>
       (\<forall>a b c d.
          uploadPath cfg = a @ ''{year}'' @ b @ ''{month}'' @ c @ ''{day}'' @ d \<and>
          CHR ''{'' \<notin> set (a @ b @ c) \<longrightarrow>
          path = a @ year @ b @ month @ c @ day @ d) \<and>
       (uploadPath cfg = ''{year}/{month}/{day}'' \<and>
        getFullYear env = 2024 \<and> getMonth env = 2 \<and> getDate env = 5 \<longrightarrow>
          generatePath cfg env filename =
            ''2024/03/05/'' @ normalizePath (generateFilename cfg env filename)))"
proof -
  define year where "year = showInt (getFullYear env)"
  define month where "month = padStart 2 (CHR ''0'') (showNat (getMonth env + 1))"
  define day where "day = padStart 2 (CHR ''0'') (showNat (getDate env))"
  define path where
    "path = replace ''{day}'' day (replace ''{month}'' month
              (replace ''{year}'' year (uploadPath cfg)))"
  have normalized: "generatePath cfg env filename =
      join ''/'' (segments (path @ ''/'' @ generateFilename cfg env filename))"
    by (simp add: generatePath_def Let_def normalizePath_segments path_def day_def month_def
        year_def)
  have two_month: "getMonth env < 12 \<longrightarrow>
      month = [digitChar ((getMonth env + 1) div 10), digitChar ((getMonth env + 1) mod 10)]"
    using padStart_two_digits [of "getMonth env + 1"] by (simp add: month_def)
  have two_day: "getDate env \<le> 31 \<longrightarrow>
      day = [digitChar (getDate env div 10), digitChar (getDate env mod 10)]"
    using padStart_two_digits [of "getDate env"] by (simp add: day_def)
  have in_order: "\<forall>a b c d.
      uploadPath cfg = a @ ''{year}'' @ b @ ''{month}'' @ c @ ''{day}'' @ d \<and>
      CHR ''{'' \<notin> set (a @ b @ c) \<longrightarrow>
      path = a @ year @ b @ month @ c @ day @ d"
  proof (intro allI impI)
    fix a b c d
    assume t: "uploadPath cfg = a @ ''{year}'' @ b @ ''{month}'' @ c @ ''{day}'' @ d \<and>
      CHR ''{'' \<notin> set (a @ b @ c)"
    have "CHR ''{'' \<notin> set (year @ month)"
      using brace_not_in_showInt [of "getFullYear env"]
        brace_not_in_padStart [of 2 "getMonth env + 1"]
      by (simp add: year_def month_def)
    with t show "path = a @ year @ b @ month @ c @ day @ d"
      using replace_placeholders_in_order [of a b c year month day d]
      by (simp add: path_def)
  qed
  have example: "uploadPath cfg = ''{year}/{month}/{day}'' \<and>
      getFullYear env = 2024 \<and> getMonth env = 2 \<and> getDate env = 5 \<longrightarrow>
      generatePath cfg env filename =
        ''2024/03/05/'' @ normalizePath (generateFilename cfg env filename)"
  proof
    assume e: "uploadPath cfg = ''{year}/{month}/{day}'' \<and>
      getFullYear env = 2024 \<and> getMonth env = 2 \<and> getDate env = 5"
    then have p: "path = ''2024/03/05''"
      by (simp add: path_def day_def month_def year_def showInt_def showNat.simps
          padStart_def digitChar_def)
    have s: "segments ''2024/03/05'' = [''2024'', ''03'', ''05'']"
      by (simp add: segments_def)
    have "segments (generateFilename cfg env filename) \<noteq> []"
      using generateFilename_dot [of cfg env filename] by (intro segments_not_Nil) auto
    then obtain x xs where xs: "segments (generateFilename cfg env filename) = x # xs"
      by (cases "segments (generateFilename cfg env filename)") auto
    have "segments (path @ ''/'' @ generateFilename cfg env filename)
          = [''2024'', ''03'', ''05''] @ segments (generateFilename cfg env filename)"
      using segments_append_slash [of path "generateFilename cfg env filename"] p s by simp
    with normalized xs show "generatePath cfg env filename =
        ''2024/03/05/'' @ normalizePath (generateFilename cfg env filename)"
      by (simp add: normalizePath_segments)
  qed
  from normalized two_month two_day in_order example show ?thesis
    unfolding Let_def year_def month_def day_def path_def by blast
qed

theorem generatePath_substitutes_normalizes_witness:
  "generatePath
     \<lparr>uploadPath = ''{year}/{month}/{day}'', nameRule = ''original'',
      allowedTypes = [''image/png''], maxFileSize = 10\<rparr>
     \<lparr>getFullYear = 2024, getMonth = 2, getDate = 5, dateNow = 1709596800000,
      mathRandom36 = ''0.4fzyo82mvyr''\<rparr>
     ''photo.png'' = ''2024/03/05/photo.png''"
proof -
  let ?cfg = "\<lparr>uploadPath = ''{year}/{month}/{day}'', nameRule = ''original'',
      allowedTypes = [''image/png''], maxFileSize = 10\<rparr>"
  let ?env = "\<lparr>getFullYear = 2024, getMonth = 2, getDate = 5, dateNow = 1709596800000,
      mathRandom36 = ''0.4fzyo82mvyr''\<rparr>"
  have "normalizePath (generateFilename ?cfg ?env ''photo.png'') = ''photo.png''"
    by (simp add: generateFilename_def toLowerCase_def toLowerCaseChar_def sanitize_def
        trimDashes_def replaceDisallowed_def allowedChar_def normalizePath_def
        stripLeadingSlash_def stripTrailingSlash_def)
  moreover have date:
    "uploadPath ?cfg = ''{year}/{month}/{day}'' \<and>
     getFullYear ?env = 2024 \<and> getMonth ?env = 2 \<and> getDate ?env = 5"
    by simp
  have "generatePath ?cfg ?env ''photo.png'' =
      ''2024/03/05/'' @ normalizePath (generateFilename ?cfg ?env ''photo.png'')"
    using generatePath_substitutes_normalizes [of ?env ?cfg "''photo.png''"] date
    unfolding Let_def by blast
  ultimately show ?thesis by simp
qed

section \<open>Generation of the file name\<close>

text \<open>
  C2 says that under the rule \<open>original\<close> the generated name is the sanitized base name
  of the original, \<open>.\<close>, and the extension, the text after the final \<open>.\<close>, lower-cased.
  \<open>archive.tar.gz\<close> has the extension \<open>gz\<close> and the base name \<open>archive.tar\<close>, whose
  characters are all in \<open>[a-zA-Z0-9-_.]\<close>: the name described is \<open>archive.tar.gz\<close>. The
  source takes \<open>split('.')[0]\<close>, the text before the first \<open>.\<close>, for the base name, and
  returns \<open>archive.gz\<close>: what stands between the first and the last \<open>.\<close> is lost. For a
  name with one \<open>.\<close> the source returns the name described
  (\<open>generateFilename_original_one_dot\<close>); sanitizing is idempotent (\<open>sanitize_idempotent\<close>), and \<open>My Photo!!.PNG\<close> gives
  \<open>My-Photo.png\<close> (\<open>generateFilename_original_example\<close>).
\<close>

theorem generateFilename_original_first_dot:
  "generateFilename
     \<lparr>uploadPath = ''{year}/{month}/{day}'', nameRule = ''original'',
      allowedTypes = [''application/gzip''], maxFileSize = 10\<rparr>
     env ''archive.tar.gz'' = ''archive.gz'' \<and>
   sanitize ''archive.tar'' @ ''.'' @ toLowerCase ''gz'' = ''archive.tar.gz''"
  by (simp add: generateFilename_def toLowerCase_def toLowerCaseChar_def sanitize_def
      trimDashes_def replaceDisallowed_def allowedChar_def)

text \<open>
  C9 says that under the rule \<open>random\<close> the base name has exactly 8 characters out of
  \<open>[a-z0-9]\<close>, for every value of the random source. The base name is
  \<open>Math.random().toString(36).substring(2, 10)\<close>: the first 8 digits after \<open>0.\<close>, when
  there are 8 (\<open>random_basename\<close>). When \<open>Math.random()\<close> returns 0.5, its text in base 36
  is \<open>0.i\<close>, and the base name is the single character \<open>i\<close>.
\<close>

theorem generateFilename_random_short:
  "generateFilename
     \<lparr>uploadPath = ''{year}/{month}/{day}'', nameRule = ''random'',
      allowedTypes = [''image/png''], maxFileSize = 10\<rparr>
     \<lparr>getFullYear = 2024, getMonth = 2, getDate = 5, dateNow = 1709596800000,
      mathRandom36 = ''0.i''\<rparr>
     ''photo.png'' = ''i.png''"
  by (simp add: generateFilename_def toLowerCase_def toLowerCaseChar_def substring_def)



end
